theory Spec2Isabelle
  imports Main
begin

section \<open>The schema\<close>

text \<open>
  The schema of the first migration: four tables in \<open>public\<close>, and the rows of
  \<open>auth.users\<close> they reference. A \<open>UUID\<close> is a natural number, a
  \<open>TIMESTAMP WITH TIME ZONE\<close> an integer (microseconds), \<open>TEXT\<close> a string, and a
  column without \<open>NOT NULL\<close> an option (\<open>None\<close> is \<open>NULL\<close>).
\<close>

type_synonym uuid = nat
type_synonym timestamptz = int

text \<open>
  A \<open>jsonb\<close> object is kept as the text that \<open>->>\<close> gives for each of its keys;
  a key that is absent, or whose value is JSON \<open>null\<close>, has no entry.
\<close>

type_synonym jsonb = "(string \<times> string) list"

text \<open>The columns of \<open>auth.users\<close> that the migration reads (\<open>NEW.id\<close>,
  \<open>NEW.email\<close>, \<open>NEW.raw_user_meta_data\<close>).\<close>

record auth_user =
  auth_user_id :: uuid
  email :: "string option"
  raw_user_meta_data :: "jsonb option"

text \<open>The two timestamp columns that profiles, teams and tasks share; the timestamp
  trigger is written once, over any row that has them.\<close>

record stamped =
  created_at :: timestamptz
  updated_at :: timestamptz

record profile = stamped +
  profile_id :: uuid
  profile_user_id :: uuid
  username :: string

record team = stamped +
  team_id :: uuid
  team_name :: string
  team_description :: "string option"
  owner_id :: uuid

record team_member =
  member_id :: uuid
  member_team_id :: uuid
  member_user_id :: uuid
  member_role :: string
  invited_by :: "uuid option"
  joined_at :: timestamptz

record task = stamped +
  task_id :: uuid
  task_team_id :: uuid
  title :: string
  task_description :: "string option"
  status :: string
  priority :: string
  due_date :: "timestamptz option"
  assigned_to :: "uuid option"
  created_by :: uuid

record database =
  auth_users :: "auth_user list"
  profiles :: "profile list"
  teams :: "team list"
  team_members :: "team_member list"
  tasks :: "task list"

section \<open>SQL values\<close>

text \<open>
  \<open>a = b\<close> in SQL is true only when both sides are non-null and equal; a policy or a
  \<open>WHERE\<close> clause lets a row through only when its expression is true, so \<open>NULL\<close>
  counts as false there. \<open>auth.uid()\<close> is \<open>NULL\<close> for a request without a signed-in
  user: the actor of a request is a \<open>uuid option\<close>.
\<close>

definition sql_eq :: "'a option \<Rightarrow> 'a option \<Rightarrow> bool" where
  "sql_eq a b = (case (a, b) of (Some x, Some y) \<Rightarrow> x = y | _ \<Rightarrow> False)"

fun coalesce :: "'a option list \<Rightarrow> 'a option" where
  "coalesce [] = None"
| "coalesce (None # xs) = coalesce xs"
| "coalesce (Some x # xs) = Some x"

text \<open>\<open>j ->> key\<close>: \<open>NULL\<close> when \<open>j\<close> is \<open>NULL\<close> or has no such key.\<close>

definition jsonb_text :: "jsonb option \<Rightarrow> string \<Rightarrow> string option" where
  "jsonb_text j k = (case j of None \<Rightarrow> None | Some obj \<Rightarrow> map_of obj k)"

text \<open>\<open>split_part(s, d, 1)\<close> for a one-character delimiter: the text before the first
  \<open>d\<close>, all of \<open>s\<close> when \<open>d\<close> does not occur, \<open>NULL\<close> for \<open>NULL\<close>.\<close>

definition split_part_1 :: "string option \<Rightarrow> char \<Rightarrow> string option" where
  "split_part_1 s d = map_option (takeWhile (\<lambda>c. c \<noteq> d)) s"

section \<open>Access predicate functions\<close>

text \<open>
  \<open>is_team_member\<close> and \<open>is_team_owner\<close>: \<open>SELECT EXISTS (SELECT 1 FROM ... WHERE
  ...)\<close>. The second migration replaces both with the same bodies under
  \<open>SET search_path = ''\<close>.
\<close>

definition is_team_member :: "database \<Rightarrow> uuid option \<Rightarrow> uuid option \<Rightarrow> bool" where
  "is_team_member db uid tid =
     list_ex (\<lambda>m. sql_eq (Some (member_user_id m)) uid \<and> sql_eq (Some (member_team_id m)) tid)
       (team_members db)"

definition is_team_owner :: "database \<Rightarrow> uuid option \<Rightarrow> uuid option \<Rightarrow> bool" where
  "is_team_owner db uid tid =
     list_ex (\<lambda>t. sql_eq (Some (owner_id t)) uid \<and> sql_eq (Some (team_id t)) tid) (teams db)"

text \<open>A call of the function as a statement of its own (an RPC): its body is a single
  \<open>SELECT\<close>, so the call gives its answer and the database it was given.\<close>

definition call_is_team_member ::
  "database \<Rightarrow> uuid option \<Rightarrow> uuid option \<Rightarrow> bool \<times> database" where
  "call_is_team_member db uid tid = (is_team_member db uid tid, db)"

section \<open>Row-level security policies\<close>

datatype command = For_Select | For_Insert | For_Update | For_Delete | For_All

text \<open>A policy as \<open>CREATE POLICY\<close> writes it: its name, the command after \<open>FOR\<close>,
  and the \<open>USING\<close> and \<open>WITH CHECK\<close> expressions where given. An expression reads the
  database, \<open>auth.uid()\<close> and the row.\<close>

type_synonym 'r expr = "database \<Rightarrow> uuid option \<Rightarrow> 'r \<Rightarrow> bool"

record 'r policy =
  pol_name :: string
  pol_cmd :: command
  pol_using :: "'r expr option"
  pol_with_check :: "'r expr option"

subsection \<open>profiles\<close>

definition users_can_view_their_own_profile :: "profile policy" where
  "users_can_view_their_own_profile =
     \<lparr>pol_name = ''Users can view their own profile'', pol_cmd = For_Select,
      pol_using = Some (\<lambda>db uid p. sql_eq uid (Some (profile_user_id p))),
      pol_with_check = None\<rparr>"

definition users_can_create_their_own_profile :: "profile policy" where
  "users_can_create_their_own_profile =
     \<lparr>pol_name = ''Users can create their own profile'', pol_cmd = For_Insert,
      pol_using = None,
      pol_with_check = Some (\<lambda>db uid p. sql_eq uid (Some (profile_user_id p)))\<rparr>"

definition users_can_update_their_own_profile :: "profile policy" where
  "users_can_update_their_own_profile =
     \<lparr>pol_name = ''Users can update their own profile'', pol_cmd = For_Update,
      pol_using = Some (\<lambda>db uid p. sql_eq uid (Some (profile_user_id p))),
      pol_with_check = None\<rparr>"

definition profiles_policies :: "profile policy list" where
  "profiles_policies =
     [users_can_view_their_own_profile, users_can_create_their_own_profile,
      users_can_update_their_own_profile]"

subsection \<open>teams\<close>

definition users_can_view_teams_they_belong_to :: "team policy" where
  "users_can_view_teams_they_belong_to =
     \<lparr>pol_name = ''Users can view teams they belong to'', pol_cmd = For_Select,
      pol_using = Some (\<lambda>db uid t.
        sql_eq uid (Some (owner_id t)) \<or> is_team_member db uid (Some (team_id t))),
      pol_with_check = None\<rparr>"

definition users_can_create_teams :: "team policy" where
  "users_can_create_teams =
     \<lparr>pol_name = ''Users can create teams'', pol_cmd = For_Insert,
      pol_using = None,
      pol_with_check = Some (\<lambda>db uid t. sql_eq uid (Some (owner_id t)))\<rparr>"

definition team_owners_can_update_their_teams :: "team policy" where
  "team_owners_can_update_their_teams =
     \<lparr>pol_name = ''Team owners can update their teams'', pol_cmd = For_Update,
      pol_using = Some (\<lambda>db uid t. sql_eq uid (Some (owner_id t))),
      pol_with_check = None\<rparr>"

definition team_owners_can_delete_their_teams :: "team policy" where
  "team_owners_can_delete_their_teams =
     \<lparr>pol_name = ''Team owners can delete their teams'', pol_cmd = For_Delete,
      pol_using = Some (\<lambda>db uid t. sql_eq uid (Some (owner_id t))),
      pol_with_check = None\<rparr>"

definition teams_policies :: "team policy list" where
  "teams_policies =
     [users_can_view_teams_they_belong_to, users_can_create_teams,
      team_owners_can_update_their_teams, team_owners_can_delete_their_teams]"

subsection \<open>team_members\<close>

definition users_can_view_team_members_of_teams_they_belong_to :: "team_member policy" where
  "users_can_view_team_members_of_teams_they_belong_to =
     \<lparr>pol_name = ''Users can view team members of teams they belong to'', pol_cmd = For_Select,
      pol_using = Some (\<lambda>db uid m. is_team_member db uid (Some (member_team_id m))),
      pol_with_check = None\<rparr>"

definition team_owners_can_manage_team_members :: "team_member policy" where
  "team_owners_can_manage_team_members =
     \<lparr>pol_name = ''Team owners can manage team members'', pol_cmd = For_All,
      pol_using = Some (\<lambda>db uid m. is_team_owner db uid (Some (member_team_id m))),
      pol_with_check = Some (\<lambda>db uid m. is_team_owner db uid (Some (member_team_id m)))\<rparr>"

definition users_can_join_teams_when_invited :: "team_member policy" where
  "users_can_join_teams_when_invited =
     \<lparr>pol_name = ''Users can join teams when invited'', pol_cmd = For_Insert,
      pol_using = None,
      pol_with_check = Some (\<lambda>db uid m. sql_eq uid (Some (member_user_id m)))\<rparr>"

definition team_members_policies :: "team_member policy list" where
  "team_members_policies =
     [users_can_view_team_members_of_teams_they_belong_to,
      team_owners_can_manage_team_members, users_can_join_teams_when_invited]"

subsection \<open>tasks\<close>

definition users_can_view_tasks_from_teams_they_belong_to :: "task policy" where
  "users_can_view_tasks_from_teams_they_belong_to =
     \<lparr>pol_name = ''Users can view tasks from teams they belong to'', pol_cmd = For_Select,
      pol_using = Some (\<lambda>db uid k. is_team_member db uid (Some (task_team_id k))),
      pol_with_check = None\<rparr>"

definition team_members_can_create_tasks :: "task policy" where
  "team_members_can_create_tasks =
     \<lparr>pol_name = ''Team members can create tasks'', pol_cmd = For_Insert,
      pol_using = None,
      pol_with_check = Some (\<lambda>db uid k.
        is_team_member db uid (Some (task_team_id k)) \<and> sql_eq uid (Some (created_by k)))\<rparr>"

definition team_members_can_update_tasks :: "task policy" where
  "team_members_can_update_tasks =
     \<lparr>pol_name = ''Team members can update tasks'', pol_cmd = For_Update,
      pol_using = Some (\<lambda>db uid k. is_team_member db uid (Some (task_team_id k))),
      pol_with_check = None\<rparr>"

definition team_owners_can_delete_tasks :: "task policy" where
  "team_owners_can_delete_tasks =
     \<lparr>pol_name = ''Team owners can delete tasks'', pol_cmd = For_Delete,
      pol_using = Some (\<lambda>db uid k. is_team_owner db uid (Some (task_team_id k))),
      pol_with_check = None\<rparr>"

definition tasks_policies :: "task policy list" where
  "tasks_policies =
     [users_can_view_tasks_from_teams_they_belong_to, team_members_can_create_tasks,
      team_members_can_update_tasks, team_owners_can_delete_tasks]"

subsection \<open>How the policies of a table combine\<close>

text \<open>
  With row-level security enabled on a table, a command is governed by the policies
  declared \<open>FOR\<close> that command or \<open>FOR ALL\<close>; all of them here are permissive, so a row
  passes when one of them does, and no row passes when there is none. A policy without
  \<open>WITH CHECK\<close> checks new rows with its \<open>USING\<close> expression.
\<close>

definition applies_to :: "command \<Rightarrow> 'r policy \<Rightarrow> bool" where
  "applies_to cmd p = (pol_cmd p = For_All \<or> pol_cmd p = cmd)"

definition using_expr :: "'r policy \<Rightarrow> 'r expr" where
  "using_expr p = (case pol_using p of Some e \<Rightarrow> e | None \<Rightarrow> (\<lambda>db uid r. True))"

definition check_expr :: "'r policy \<Rightarrow> 'r expr" where
  "check_expr p = (case pol_with_check p of Some e \<Rightarrow> e | None \<Rightarrow> using_expr p)"

definition rls_using :: "'r policy list \<Rightarrow> command \<Rightarrow> 'r expr" where
  "rls_using pols cmd db uid r = list_ex (\<lambda>p. applies_to cmd p \<and> using_expr p db uid r) pols"

definition rls_check :: "'r policy list \<Rightarrow> command \<Rightarrow> 'r expr" where
  "rls_check pols cmd db uid r = list_ex (\<lambda>p. applies_to cmd p \<and> check_expr p db uid r) pols"

section \<open>Constraints\<close>

datatype error =
  RlsViolation string
| NotNullViolation string
| CheckViolation string
| UniqueViolation string
| ForeignKeyViolation string

text \<open>The first violated constraint of a list, in the order the checks are made.\<close>

fun first_error :: "(bool \<times> error) list \<Rightarrow> error option" where
  "first_error [] = None"
| "first_error ((violated, e) # cs) = (if violated then Some e else first_error cs)"

text \<open>
  The constraints of each \<open>CREATE TABLE\<close> on a new row \<open>r\<close>, given the other rows of
  its table: \<open>CHECK\<close> constraints first, then the primary key and the \<open>UNIQUE\<close>
  constraints, then the foreign keys.
\<close>

definition user_exists :: "database \<Rightarrow> uuid \<Rightarrow> bool" where
  "user_exists db u = list_ex (\<lambda>a. auth_user_id a = u) (auth_users db)"

definition team_exists :: "database \<Rightarrow> uuid \<Rightarrow> bool" where
  "team_exists db t = list_ex (\<lambda>x. team_id x = t) (teams db)"

definition profiles_constraints :: "database \<Rightarrow> profile list \<Rightarrow> profile \<Rightarrow> error option" where
  "profiles_constraints db others p = first_error
     [(list_ex (\<lambda>q. profile_id q = profile_id p) others, UniqueViolation ''profiles_pkey''),
      (list_ex (\<lambda>q. profile_user_id q = profile_user_id p) others,
         UniqueViolation ''profiles_user_id_key''),
      (list_ex (\<lambda>q. username q = username p) others, UniqueViolation ''profiles_username_key''),
      (\<not> user_exists db (profile_user_id p), ForeignKeyViolation ''profiles_user_id_fkey'')]"

definition teams_constraints :: "database \<Rightarrow> team list \<Rightarrow> team \<Rightarrow> error option" where
  "teams_constraints db others t = first_error
     [(list_ex (\<lambda>x. team_id x = team_id t) others, UniqueViolation ''teams_pkey''),
      (\<not> user_exists db (owner_id t), ForeignKeyViolation ''teams_owner_id_fkey'')]"

definition team_members_constraints ::
  "database \<Rightarrow> team_member list \<Rightarrow> team_member \<Rightarrow> error option" where
  "team_members_constraints db others m = first_error
     [(member_role m \<notin> set [''owner'', ''admin'', ''member''],
         CheckViolation ''team_members_role_check''),
      (list_ex (\<lambda>x. member_id x = member_id m) others, UniqueViolation ''team_members_pkey''),
      (list_ex (\<lambda>x. member_team_id x = member_team_id m \<and> member_user_id x = member_user_id m)
         others, UniqueViolation ''team_members_team_id_user_id_key''),
      (\<not> team_exists db (member_team_id m), ForeignKeyViolation ''team_members_team_id_fkey''),
      (\<not> user_exists db (member_user_id m), ForeignKeyViolation ''team_members_user_id_fkey''),
      (case invited_by m of None \<Rightarrow> False | Some u \<Rightarrow> \<not> user_exists db u,
         ForeignKeyViolation ''team_members_invited_by_fkey'')]"

definition tasks_constraints :: "database \<Rightarrow> task list \<Rightarrow> task \<Rightarrow> error option" where
  "tasks_constraints db others k = first_error
     [(status k \<notin> set [''todo'', ''in_progress'', ''review'', ''done''],
         CheckViolation ''tasks_status_check''),
      (priority k \<notin> set [''low'', ''medium'', ''high'', ''urgent''],
         CheckViolation ''tasks_priority_check''),
      (list_ex (\<lambda>x. task_id x = task_id k) others, UniqueViolation ''tasks_pkey''),
      (\<not> team_exists db (task_team_id k), ForeignKeyViolation ''tasks_team_id_fkey''),
      (case assigned_to k of None \<Rightarrow> False | Some u \<Rightarrow> \<not> user_exists db u,
         ForeignKeyViolation ''tasks_assigned_to_fkey''),
      (\<not> user_exists db (created_by k), ForeignKeyViolation ''tasks_created_by_fkey'')]"

text \<open>The foreign keys to \<open>teams(id)\<close> say \<open>ON DELETE CASCADE\<close> and nothing for an
  update: a team's \<open>id\<close> cannot change while a membership or a task refers to it, and
  deleting a team deletes its memberships and tasks.\<close>

definition teams_key_change :: "database \<Rightarrow> team \<Rightarrow> team \<Rightarrow> error option" where
  "teams_key_change db old new = first_error
     [(team_id new \<noteq> team_id old \<and> list_ex (\<lambda>m. member_team_id m = team_id old) (team_members db),
         ForeignKeyViolation ''team_members_team_id_fkey''),
      (team_id new \<noteq> team_id old \<and> list_ex (\<lambda>k. task_team_id k = team_id old) (tasks db),
         ForeignKeyViolation ''tasks_team_id_fkey'')]"

definition teams_cascade :: "team \<Rightarrow> database \<Rightarrow> database" where
  "teams_cascade t db =
     db\<lparr>team_members := filter (\<lambda>m. member_team_id m \<noteq> team_id t) (team_members db),
        tasks := filter (\<lambda>k. task_team_id k \<noteq> team_id t) (tasks db)\<rparr>"

section \<open>Triggers\<close>

text \<open>\<open>update_updated_at_column\<close>: \<open>NEW.updated_at = now(); RETURN NEW\<close>. The
  argument \<open>now\<close> is the value of \<open>now()\<close> in the transaction of the update.\<close>

definition update_updated_at_column ::
  "timestamptz \<Rightarrow> 'a stamped_scheme \<Rightarrow> 'a stamped_scheme" where
  "update_updated_at_column now NEW = NEW\<lparr>updated_at := now\<rparr>"

section \<open>Tables and statements\<close>

text \<open>
  What the migration declares for one table: its rows in the database, its policies,
  its constraints, its \<open>BEFORE UPDATE ... FOR EACH ROW\<close> trigger (the identity where
  there is none), and what the foreign keys that reference it do.
\<close>

record 'r table =
  tbl_name :: string
  tbl_rows :: "database \<Rightarrow> 'r list"
  tbl_store :: "'r list \<Rightarrow> database \<Rightarrow> database"
  tbl_policies :: "'r policy list"
  tbl_constraints :: "database \<Rightarrow> 'r list \<Rightarrow> 'r \<Rightarrow> error option"
  tbl_before_update :: "timestamptz \<Rightarrow> 'r \<Rightarrow> 'r"
  tbl_key_change :: "database \<Rightarrow> 'r \<Rightarrow> 'r \<Rightarrow> error option"
  tbl_cascade :: "'r \<Rightarrow> database \<Rightarrow> database"

definition profiles_table :: "profile table" where
  "profiles_table =
     \<lparr>tbl_name = ''profiles'', tbl_rows = profiles,
      tbl_store = (\<lambda>rows db. db\<lparr>profiles := rows\<rparr>),
      tbl_policies = profiles_policies, tbl_constraints = profiles_constraints,
      tbl_before_update = update_updated_at_column,
      tbl_key_change = (\<lambda>db old new. None), tbl_cascade = (\<lambda>r db. db)\<rparr>"

definition teams_table :: "team table" where
  "teams_table =
     \<lparr>tbl_name = ''teams'', tbl_rows = teams,
      tbl_store = (\<lambda>rows db. db\<lparr>teams := rows\<rparr>),
      tbl_policies = teams_policies, tbl_constraints = teams_constraints,
      tbl_before_update = update_updated_at_column,
      tbl_key_change = teams_key_change, tbl_cascade = teams_cascade\<rparr>"

definition team_members_table :: "team_member table" where
  "team_members_table =
     \<lparr>tbl_name = ''team_members'', tbl_rows = team_members,
      tbl_store = (\<lambda>rows db. db\<lparr>team_members := rows\<rparr>),
      tbl_policies = team_members_policies, tbl_constraints = team_members_constraints,
      tbl_before_update = (\<lambda>now NEW. NEW),
      tbl_key_change = (\<lambda>db old new. None), tbl_cascade = (\<lambda>r db. db)\<rparr>"

definition tasks_table :: "task table" where
  "tasks_table =
     \<lparr>tbl_name = ''tasks'', tbl_rows = tasks,
      tbl_store = (\<lambda>rows db. db\<lparr>tasks := rows\<rparr>),
      tbl_policies = tasks_policies, tbl_constraints = tasks_constraints,
      tbl_before_update = update_updated_at_column,
      tbl_key_change = (\<lambda>db old new. None), tbl_cascade = (\<lambda>r db. db)\<rparr>"

text \<open>
  The statements a client sends, run for the actor \<open>uid\<close> with row-level security on.
  Policies are evaluated on the database as the statement finds it.

  \<open>SELECT ... WHERE w\<close>: the rows that satisfy \<open>w\<close> and pass the \<open>SELECT\<close> policies.
\<close>

definition sql_select :: "'r table \<Rightarrow> database \<Rightarrow> uuid option \<Rightarrow> ('r \<Rightarrow> bool) \<Rightarrow> 'r list" where
  "sql_select tbl db uid w =
     filter (\<lambda>r. w r \<and> rls_using (tbl_policies tbl) For_Select db uid r) (tbl_rows tbl db)"

text \<open>
  \<open>INSERT\<close> of the row \<open>r\<close> (column defaults already filled in): the \<open>WITH CHECK\<close> of
  the \<open>INSERT\<close> policies, and with \<open>RETURNING\<close> (\<open>.insert(...).select()\<close>) the
  \<open>SELECT\<close> policies on the new row, then the constraints. A row that fails the
  policies is an error, not a silent skip.
\<close>

definition sql_insert ::
  "'r table \<Rightarrow> database \<Rightarrow> uuid option \<Rightarrow> bool \<Rightarrow> 'r \<Rightarrow> error + database" where
  "sql_insert tbl db uid returning r =
     (if \<not> rls_check (tbl_policies tbl) For_Insert db uid r then Inl (RlsViolation (tbl_name tbl))
      else if returning \<and> \<not> rls_using (tbl_policies tbl) For_Select db uid r
        then Inl (RlsViolation (tbl_name tbl))
      else case tbl_constraints tbl db (tbl_rows tbl db) r of
             Some e \<Rightarrow> Inl e
           | None \<Rightarrow> Inr (tbl_store tbl (tbl_rows tbl db @ [r]) db))"

text \<open>An \<open>INSERT\<close> made inside a \<open>SECURITY DEFINER\<close> function runs as the owner of
  the table, whom row-level security does not bind: only the constraints are checked.\<close>

definition sql_insert_definer :: "'r table \<Rightarrow> database \<Rightarrow> 'r \<Rightarrow> error + database" where
  "sql_insert_definer tbl db r =
     (case tbl_constraints tbl db (tbl_rows tbl db) r of
        Some e \<Rightarrow> Inl e
      | None \<Rightarrow> Inr (tbl_store tbl (tbl_rows tbl db @ [r]) db))"

text \<open>
  \<open>UPDATE ... SET f WHERE w\<close>. The \<open>WHERE\<close> clause reads the row, so the rows updated
  are those that satisfy \<open>w\<close> and pass both the \<open>SELECT\<close> and the \<open>UPDATE\<close> policies'
  \<open>USING\<close>; the others are passed over without an error. For each row updated the
  \<open>BEFORE UPDATE\<close> trigger runs on the new row, then the new row must pass the
  \<open>UPDATE\<close> policies' check and the \<open>SELECT\<close> policies, then the constraints. Any
  error aborts the statement as a whole. The answer is the new database and the number
  of rows updated.
\<close>

definition update_target :: "'r table \<Rightarrow> database \<Rightarrow> uuid option \<Rightarrow> ('r \<Rightarrow> bool) \<Rightarrow> 'r \<Rightarrow> bool" where
  "update_target tbl db uid w r =
     (w r \<and> rls_using (tbl_policies tbl) For_Select db uid r
          \<and> rls_using (tbl_policies tbl) For_Update db uid r)"

definition update_error ::
  "'r table \<Rightarrow> database \<Rightarrow> uuid option \<Rightarrow> 'r list \<Rightarrow> 'r \<Rightarrow> 'r \<Rightarrow> error option" where
  "update_error tbl db uid others old new =
     (if \<not> (rls_check (tbl_policies tbl) For_Update db uid new
             \<and> rls_using (tbl_policies tbl) For_Select db uid new)
      then Some (RlsViolation (tbl_name tbl))
      else case tbl_constraints tbl db others new of
             Some e \<Rightarrow> Some e
           | None \<Rightarrow> tbl_key_change tbl db old new)"

fun update_rows ::
  "'r table \<Rightarrow> database \<Rightarrow> uuid option \<Rightarrow> timestamptz \<Rightarrow> ('r \<Rightarrow> bool) \<Rightarrow> ('r \<Rightarrow> 'r) \<Rightarrow>
     'r list \<Rightarrow> 'r list \<Rightarrow> error + 'r list" where
  "update_rows tbl db uid now w f seen [] = Inr seen"
| "update_rows tbl db uid now w f seen (r # rs) =
     (if update_target tbl db uid w r then
        (let new = tbl_before_update tbl now (f r) in
         case update_error tbl db uid (seen @ rs) r new of
           Some e \<Rightarrow> Inl e
         | None \<Rightarrow> update_rows tbl db uid now w f (seen @ [new]) rs)
      else update_rows tbl db uid now w f (seen @ [r]) rs)"

definition sql_update ::
  "'r table \<Rightarrow> database \<Rightarrow> uuid option \<Rightarrow> timestamptz \<Rightarrow> ('r \<Rightarrow> bool) \<Rightarrow> ('r \<Rightarrow> 'r) \<Rightarrow>
     error + database \<times> nat" where
  "sql_update tbl db uid now w f =
     (case update_rows tbl db uid now w f [] (tbl_rows tbl db) of
        Inl e \<Rightarrow> Inl e
      | Inr rows \<Rightarrow>
          Inr (tbl_store tbl rows db,
               length (filter (update_target tbl db uid w) (tbl_rows tbl db))))"

text \<open>
  \<open>DELETE ... WHERE w\<close>: the rows that satisfy \<open>w\<close> and pass both the \<open>SELECT\<close> and
  the \<open>DELETE\<close> policies' \<open>USING\<close> are removed, and what refers to them goes with them;
  the others stay, without an error.
\<close>

definition delete_target :: "'r table \<Rightarrow> database \<Rightarrow> uuid option \<Rightarrow> ('r \<Rightarrow> bool) \<Rightarrow> 'r \<Rightarrow> bool" where
  "delete_target tbl db uid w r =
     (w r \<and> rls_using (tbl_policies tbl) For_Select db uid r
          \<and> rls_using (tbl_policies tbl) For_Delete db uid r)"

definition sql_delete ::
  "'r table \<Rightarrow> database \<Rightarrow> uuid option \<Rightarrow> ('r \<Rightarrow> bool) \<Rightarrow> database \<times> nat" where
  "sql_delete tbl db uid w =
     (let gone = filter (delete_target tbl db uid w) (tbl_rows tbl db);
          kept = filter (\<lambda>r. \<not> delete_target tbl db uid w r) (tbl_rows tbl db)
      in (fold (tbl_cascade tbl) gone (tbl_store tbl kept db), length gone))"

section \<open>Column defaults\<close>

text \<open>
  What an \<open>INSERT\<close> supplies: a column with a \<open>DEFAULT\<close> may be left out (\<open>None\<close>)
  and then takes its default, \<open>gen_random_uuid()\<close> for an \<open>id\<close> (the argument
  \<open>fresh\<close>), \<open>now()\<close> for a timestamp; a nullable column left out is \<open>NULL\<close>; a
  \<open>NOT NULL\<close> column without a default is always supplied.
\<close>

definition default :: "'a \<Rightarrow> 'a option \<Rightarrow> 'a" where
  "default d v = (case v of None \<Rightarrow> d | Some x \<Rightarrow> x)"

record profile_insert =
  ins_profile_id :: "uuid option"
  ins_profile_user_id :: uuid
  ins_username :: string
  ins_profile_created_at :: "timestamptz option"
  ins_profile_updated_at :: "timestamptz option"

definition profiles_row :: "timestamptz \<Rightarrow> uuid \<Rightarrow> profile_insert \<Rightarrow> profile" where
  "profiles_row now fresh i =
     \<lparr>created_at = default now (ins_profile_created_at i),
      updated_at = default now (ins_profile_updated_at i),
      profile_id = default fresh (ins_profile_id i),
      profile_user_id = ins_profile_user_id i,
      username = ins_username i\<rparr>"

record team_insert =
  ins_team_id :: "uuid option"
  ins_team_name :: string
  ins_team_description :: "string option"
  ins_owner_id :: uuid
  ins_team_created_at :: "timestamptz option"
  ins_team_updated_at :: "timestamptz option"

definition teams_row :: "timestamptz \<Rightarrow> uuid \<Rightarrow> team_insert \<Rightarrow> team" where
  "teams_row now fresh i =
     \<lparr>created_at = default now (ins_team_created_at i),
      updated_at = default now (ins_team_updated_at i),
      team_id = default fresh (ins_team_id i),
      team_name = ins_team_name i,
      team_description = ins_team_description i,
      owner_id = ins_owner_id i\<rparr>"

record team_member_insert =
  ins_member_id :: "uuid option"
  ins_member_team_id :: uuid
  ins_member_user_id :: uuid
  ins_member_role :: "string option"
  ins_invited_by :: "uuid option"
  ins_joined_at :: "timestamptz option"

definition team_members_row :: "timestamptz \<Rightarrow> uuid \<Rightarrow> team_member_insert \<Rightarrow> team_member" where
  "team_members_row now fresh i =
     \<lparr>member_id = default fresh (ins_member_id i),
      member_team_id = ins_member_team_id i,
      member_user_id = ins_member_user_id i,
      member_role = default ''member'' (ins_member_role i),
      invited_by = ins_invited_by i,
      joined_at = default now (ins_joined_at i)\<rparr>"

record task_insert =
  ins_task_id :: "uuid option"
  ins_task_team_id :: uuid
  ins_title :: string
  ins_task_description :: "string option"
  ins_status :: "string option"
  ins_priority :: "string option"
  ins_due_date :: "timestamptz option"
  ins_assigned_to :: "uuid option"
  ins_created_by :: uuid
  ins_task_created_at :: "timestamptz option"
  ins_task_updated_at :: "timestamptz option"

definition tasks_row :: "timestamptz \<Rightarrow> uuid \<Rightarrow> task_insert \<Rightarrow> task" where
  "tasks_row now fresh i =
     \<lparr>created_at = default now (ins_task_created_at i),
      updated_at = default now (ins_task_updated_at i),
      task_id = default fresh (ins_task_id i),
      task_team_id = ins_task_team_id i,
      title = ins_title i,
      task_description = ins_task_description i,
      status = default ''todo'' (ins_status i),
      priority = default ''medium'' (ins_priority i),
      due_date = ins_due_date i,
      assigned_to = ins_assigned_to i,
      created_by = ins_created_by i\<rparr>"

section \<open>New user registration\<close>

text \<open>
  \<open>handle_new_user\<close>, \<open>SECURITY DEFINER\<close>: one \<open>INSERT INTO public.profiles (user_id,
  username)\<close> with \<open>NEW.id\<close> and \<open>COALESCE(NEW.raw_user_meta_data->>'username',
  split_part(NEW.email, '@', 1))\<close>. \<open>username\<close> is \<open>NOT NULL\<close>: when both are
  \<open>NULL\<close> the insert fails.
\<close>

definition handle_new_user ::
  "database \<Rightarrow> timestamptz \<Rightarrow> uuid \<Rightarrow> auth_user \<Rightarrow> error + database" where
  "handle_new_user db now fresh NEW =
     (case coalesce [jsonb_text (raw_user_meta_data NEW) ''username'',
                     split_part_1 (email NEW) CHR ''@''] of
        None \<Rightarrow> Inl (NotNullViolation ''username'')
      | Some name \<Rightarrow>
          sql_insert_definer profiles_table db
            (profiles_row now fresh
               \<lparr>ins_profile_id = None, ins_profile_user_id = auth_user_id NEW,
                ins_username = name, ins_profile_created_at = None,
                ins_profile_updated_at = None\<rparr>))"

text \<open>
  Creating an account is the insertion of a row into \<open>auth.users\<close>; the trigger
  \<open>on_auth_user_created\<close> (\<open>AFTER INSERT ... FOR EACH ROW\<close>) then runs
  \<open>handle_new_user\<close> in the same transaction, so an error of the trigger leaves no
  account either.
\<close>

definition create_account ::
  "database \<Rightarrow> timestamptz \<Rightarrow> uuid \<Rightarrow> auth_user \<Rightarrow> error + database" where
  "create_account db now fresh u =
     (if user_exists db (auth_user_id u) then Inl (UniqueViolation ''users_pkey'')
      else handle_new_user (db\<lparr>auth_users := auth_users db @ [u]\<rparr>) now fresh u)"

section \<open>The dashboard and the CreateTeam page\<close>

text \<open>
  \<open>fetchTeams\<close>, for each team it lists: \<open>from('team_members').select('*', {count:
  'exact', head: true}).eq('team_id', team.id)\<close> and the same on \<open>tasks\<close>; the count is
  the number of rows the query would return, and \<open>memberCount || 0\<close> is that number.
\<close>

definition member_count :: "database \<Rightarrow> uuid option \<Rightarrow> uuid \<Rightarrow> nat" where
  "member_count db uid tid =
     length (sql_select team_members_table db uid (\<lambda>m. member_team_id m = tid))"

definition task_count :: "database \<Rightarrow> uuid option \<Rightarrow> uuid \<Rightarrow> nat" where
  "task_count db uid tid = length (sql_select tasks_table db uid (\<lambda>k. task_team_id k = tid))"

text \<open>\<open>String.prototype.trim\<close>, on the ASCII white space characters.\<close>

definition is_space :: "char \<Rightarrow> bool" where
  "is_space c = (c \<in> set [CHR 0x20, CHR 0x09, CHR 0x0A, CHR 0x0B, CHR 0x0C, CHR 0x0D])"

definition trim :: "string \<Rightarrow> string" where
  "trim s = rev (dropWhile is_space (rev (dropWhile is_space s)))"

text \<open>
  \<open>handleSubmit\<close> of the CreateTeam page, for the signed-in \<open>user\<close> (whose id is
  \<open>auth.uid()\<close> of its requests): two requests, each a transaction of its own. The
  first inserts the team and reads it back (\<open>.insert([...]).select().single()\<close>), the
  second inserts the creator's membership with role \<open>owner\<close>. An error of the second
  leaves the team of the first in place.
\<close>

datatype submit_result =
  NotSignedIn
| ValidationError
| CreateFailed error
| Created uuid

definition handleSubmit ::
  "database \<Rightarrow> uuid option \<Rightarrow> string \<Rightarrow> string \<Rightarrow> timestamptz \<Rightarrow> uuid \<Rightarrow> timestamptz \<Rightarrow> uuid \<Rightarrow>
     submit_result \<times> database" where
  "handleSubmit db user name description now1 fresh1 now2 fresh2 =
     (case user of
        None \<Rightarrow> (NotSignedIn, db)
      | Some user_id \<Rightarrow>
          (if trim name = [] then (ValidationError, db)
           else
            let teamData = teams_row now1 fresh1
                  \<lparr>ins_team_id = None, ins_team_name = trim name,
                   ins_team_description =
                     (if trim description = [] then None else Some (trim description)),
                   ins_owner_id = user_id, ins_team_created_at = None,
                   ins_team_updated_at = None\<rparr>
            in (case sql_insert teams_table db user True teamData of
                  Inl teamError \<Rightarrow> (CreateFailed teamError, db)
                | Inr db1 \<Rightarrow>
                    (case sql_insert team_members_table db1 user False
                            (team_members_row now2 fresh2
                               \<lparr>ins_member_id = None, ins_member_team_id = team_id teamData,
                                ins_member_user_id = user_id, ins_member_role = Some ''owner'',
                                ins_invited_by = None, ins_joined_at = None\<rparr>) of
                       Inl memberError \<Rightarrow> (CreateFailed memberError, db1)
                     | Inr db2 \<Rightarrow> (Created (team_id teamData), db2)))))"

section \<open>Properties of statements, as predicates\<close>

text \<open>
  A statement that the policies deny changes nothing. For one table, one actor and one
  statement of each kind: an \<open>INSERT\<close> whose row fails the check is the error
  \<open>RlsViolation\<close>; a \<open>SELECT\<close>, \<open>UPDATE\<close> or \<open>DELETE\<close> none of whose rows passes
  the policy of its command answers with no row, or with the database as it was and a
  count of zero; an \<open>UPDATE\<close> whose new row fails the check is refused with
  \<open>RlsViolation\<close> for that row, and the statement is an error.
\<close>

definition denied_cleanly ::
  "'r table \<Rightarrow> database \<Rightarrow> uuid option \<Rightarrow> timestamptz \<Rightarrow> ('r \<Rightarrow> bool) \<Rightarrow> ('r \<Rightarrow> 'r) \<Rightarrow> 'r \<Rightarrow> bool \<Rightarrow>
     bool" where
  "denied_cleanly tbl db uid now w f r returning =
     ((\<not> rls_check (tbl_policies tbl) For_Insert db uid r \<longrightarrow>
         sql_insert tbl db uid returning r = Inl (RlsViolation (tbl_name tbl))) \<and>
      ((\<forall>x\<in>set (tbl_rows tbl db). w x \<longrightarrow> \<not> rls_using (tbl_policies tbl) For_Select db uid x) \<longrightarrow>
         sql_select tbl db uid w = []) \<and>
      ((\<forall>x\<in>set (tbl_rows tbl db). w x \<longrightarrow> \<not> rls_using (tbl_policies tbl) For_Update db uid x) \<longrightarrow>
         sql_update tbl db uid now w f = Inr (db, 0)) \<and>
      ((\<forall>x\<in>set (tbl_rows tbl db). w x \<longrightarrow> \<not> rls_using (tbl_policies tbl) For_Delete db uid x) \<longrightarrow>
         sql_delete tbl db uid w = (db, 0)) \<and>
      (\<forall>x\<in>set (tbl_rows tbl db).
         update_target tbl db uid w x \<and>
         \<not> rls_check (tbl_policies tbl) For_Update db uid (tbl_before_update tbl now (f x)) \<longrightarrow>
           update_error tbl db uid (tbl_rows tbl db) x (tbl_before_update tbl now (f x)) =
             Some (RlsViolation (tbl_name tbl)) \<and>
           isl (sql_update tbl db uid now w f)))"

text \<open>
  What a successful \<open>UPDATE\<close> leaves in a table with the timestamp trigger: a row it
  updated is what the statement set, with \<open>updated_at\<close> replaced by \<open>now\<close>, which is
  not before the old \<open>updated_at\<close> when that was not after \<open>now\<close>; every other row is
  as it was.
\<close>

definition update_stamps ::
  "'a stamped_scheme table \<Rightarrow> database \<Rightarrow> uuid option \<Rightarrow> timestamptz \<Rightarrow>
     ('a stamped_scheme \<Rightarrow> bool) \<Rightarrow> ('a stamped_scheme \<Rightarrow> 'a stamped_scheme) \<Rightarrow> database \<Rightarrow> bool" where
  "update_stamps tbl db uid now w f db' =
     list_all2
       (\<lambda>old new.
          if update_target tbl db uid w old
          then new = (f old)\<lparr>updated_at := now\<rparr> \<and>
               (updated_at old \<le> now \<longrightarrow> updated_at old \<le> updated_at new)
          else new = old)
       (tbl_rows tbl db) (tbl_rows tbl db')"

section \<open>Example databases\<close>

text \<open>Three users A, B and C (ids 1, 2, 3); the team Eng (id 10) that A owns; one task
  of Eng.\<close>

definition users_abc :: "auth_user list" where
  "users_abc =
     [\<lparr>auth_user_id = 1, email = Some ''a@example.com'', raw_user_meta_data = None\<rparr>,
      \<lparr>auth_user_id = 2, email = Some ''b@example.com'', raw_user_meta_data = None\<rparr>,
      \<lparr>auth_user_id = 3, email = Some ''c@example.com'', raw_user_meta_data = None\<rparr>]"

definition users_db :: database where
  "users_db = \<lparr>auth_users = users_abc, profiles = [], teams = [], team_members = [], tasks = []\<rparr>"

definition eng_team :: team where
  "eng_team = \<lparr>created_at = 10, updated_at = 10, team_id = 10, team_name = ''Eng'',
     team_description = None, owner_id = 1\<rparr>"

definition eng_task :: task where
  "eng_task = \<lparr>created_at = 30, updated_at = 30, task_id = 100, task_team_id = 10,
     title = ''Ship'', task_description = None, status = ''todo'', priority = ''medium'',
     due_date = None, assigned_to = None, created_by = 1\<rparr>"

text \<open>A holds an owner membership and has invited B; C is an outsider.\<close>

definition eng_db :: database where
  "eng_db =
     \<lparr>auth_users = users_abc, profiles = [], teams = [eng_team],
      team_members =
        [\<lparr>member_id = 20, member_team_id = 10, member_user_id = 1, member_role = ''owner'',
          invited_by = None, joined_at = 11\<rparr>,
         \<lparr>member_id = 21, member_team_id = 10, member_user_id = 2, member_role = ''member'',
          invited_by = Some 1, joined_at = 20\<rparr>],
      tasks = [eng_task]\<rparr>"

text \<open>The same team with no membership row at all.\<close>

definition owner_only_db :: database where
  "owner_only_db =
     \<lparr>auth_users = users_abc, profiles = [], teams = [eng_team], team_members = [],
      tasks = [eng_task]\<rparr>"

text \<open>The team that \<open>handleSubmit\<close> creates for A from the name \<open>''  Eng ''\<close>.\<close>

definition created_eng_db :: database where
  "created_eng_db = users_db
     \<lparr>teams := [\<lparr>created_at = 10, updated_at = 10, team_id = 7, team_name = ''Eng'',
                  team_description = None, owner_id = 1\<rparr>],
      team_members := [\<lparr>member_id = 8, member_team_id = 7, member_user_id = 1,
                         member_role = ''owner'', invited_by = None, joined_at = 11\<rparr>]\<rparr>"

text \<open>A team inserted at time 10 with \<open>updated_at\<close> supplied as 100, and the same team
  after it is renamed at time 20.\<close>

definition future_team :: team_insert where
  "future_team = \<lparr>ins_team_id = None, ins_team_name = ''Eng'', ins_team_description = None,
     ins_owner_id = 1, ins_team_created_at = None, ins_team_updated_at = Some 100\<rparr>"

definition future_team_db :: database where
  "future_team_db = users_db\<lparr>teams :=
     [\<lparr>created_at = 10, updated_at = 100, team_id = 7, team_name = ''Eng'',
       team_description = None, owner_id = 1\<rparr>]\<rparr>"

definition renamed_team_db :: database where
  "renamed_team_db = users_db\<lparr>teams :=
     [\<lparr>created_at = 10, updated_at = 20, team_id = 7, team_name = ''Core'',
       team_description = None, owner_id = 1\<rparr>]\<rparr>"

definition team_7 :: "team \<Rightarrow> bool" where
  "team_7 t = (team_id t = 7)"

definition rename_to_core :: "team \<Rightarrow> team" where
  "rename_to_core t = t\<lparr>team_name := ''Core''\<rparr>"

definition task_100 :: "task \<Rightarrow> bool" where
  "task_100 k = (task_id k = 100)"

text \<open>An update that also supplies an \<open>updated_at\<close> of its own.\<close>

definition finish_backdated :: "task \<Rightarrow> task" where
  "finish_backdated k = k\<lparr>status := ''done'', updated_at := 5\<rparr>"

text \<open>A move of a task to team 11, of which nobody is a member.\<close>

definition move_to_11 :: "task \<Rightarrow> task" where
  "move_to_11 k = k\<lparr>task_team_id := 11\<rparr>"

definition forged_task :: task where
  "forged_task = eng_task\<lparr>task_id := 101, created_by := 3\<rparr>"

definition own_task :: task where
  "own_task = eng_task\<lparr>task_id := 101, created_by := 2\<rparr>"

definition b_added_by_c :: team_member where
  "b_added_by_c =
     \<lparr>member_id = 22, member_team_id = 10, member_user_id = 2, member_role = ''admin'',
      invited_by = None, joined_at = 40\<rparr>"

definition c_joins :: team_member where
  "c_joins =
     \<lparr>member_id = 22, member_team_id = 10, member_user_id = 3, member_role = ''member'',
      invited_by = None, joined_at = 40\<rparr>"

definition b_membership :: team_member where
  "b_membership =
     \<lparr>member_id = 21, member_team_id = 10, member_user_id = 2, member_role = ''member'',
      invited_by = Some 1, joined_at = 20\<rparr>"

text \<open>Two new accounts: one whose metadata carries an empty \<open>username\<close>, one whose
  metadata has no \<open>username\<close>.\<close>

definition blank_user :: auth_user where
  "blank_user = \<lparr>auth_user_id = 4, email = Some ''dana@example.com'',
     raw_user_meta_data = Some [(''username'', [])]\<rparr>"

definition dana_user :: auth_user where
  "dana_user = \<lparr>auth_user_id = 4, email = Some ''dana@example.com'',
     raw_user_meta_data = Some [(''full_name'', ''Dana'')]\<rparr>"

section \<open>Properties\<close>

subsection \<open>SQL values and policies\<close>

lemma sql_eq_Some [simp]: "sql_eq (Some x) (Some y) = (x = y)"
  by (simp add: sql_eq_def)

lemma sql_eq_None [simp]: "sql_eq None b = False" "sql_eq a None = False"
  by (simp_all add: sql_eq_def split: option.splits)

lemma sql_eq_Some_left: "sql_eq (Some x) b = (b = Some x)"
  by (cases b) auto

lemma sql_eq_Some_right: "sql_eq a (Some y) = (a = Some y)"
  by (cases a) auto

lemma coalesce_Cons:
  "coalesce (x # xs) = (case x of None \<Rightarrow> coalesce xs | Some v \<Rightarrow> Some v)"
  by (cases x) simp_all

lemma is_team_member_iff:
  "is_team_member db uid tid =
     (\<exists>m\<in>set (team_members db). uid = Some (member_user_id m) \<and> tid = Some (member_team_id m))"
  by (auto simp: is_team_member_def list_ex_iff sql_eq_Some_left)

lemma is_team_owner_iff:
  "is_team_owner db uid tid =
     (\<exists>t\<in>set (teams db). uid = Some (owner_id t) \<and> tid = Some (team_id t))"
  by (auto simp: is_team_owner_def list_ex_iff sql_eq_Some_left)

lemmas policy_defs =
  rls_using_def rls_check_def applies_to_def using_expr_def check_expr_def
  profiles_policies_def teams_policies_def team_members_policies_def tasks_policies_def
  users_can_view_their_own_profile_def users_can_create_their_own_profile_def
  users_can_update_their_own_profile_def
  users_can_view_teams_they_belong_to_def users_can_create_teams_def
  team_owners_can_update_their_teams_def team_owners_can_delete_their_teams_def
  users_can_view_team_members_of_teams_they_belong_to_def
  team_owners_can_manage_team_members_def users_can_join_teams_when_invited_def
  users_can_view_tasks_from_teams_they_belong_to_def team_members_can_create_tasks_def
  team_members_can_update_tasks_def team_owners_can_delete_tasks_def

text \<open>The policies of each table and command, combined.\<close>

lemma profiles_policies_iff:
  "rls_using profiles_policies For_Select db uid p = (uid = Some (profile_user_id p))"
  "rls_check profiles_policies For_Insert db uid p = (uid = Some (profile_user_id p))"
  "rls_using profiles_policies For_Update db uid p = (uid = Some (profile_user_id p))"
  "rls_check profiles_policies For_Update db uid p = (uid = Some (profile_user_id p))"
  "rls_using profiles_policies For_Delete db uid p = False"
  by (simp_all add: policy_defs sql_eq_Some_right)

lemma teams_select_iff:
  "rls_using teams_policies For_Select db uid t =
     (uid = Some (owner_id t) \<or> is_team_member db uid (Some (team_id t)))"
  by (simp add: policy_defs sql_eq_Some_right)

lemma teams_owner_iff:
  "rls_check teams_policies For_Insert db uid t = (uid = Some (owner_id t))"
  "rls_using teams_policies For_Update db uid t = (uid = Some (owner_id t))"
  "rls_check teams_policies For_Update db uid t = (uid = Some (owner_id t))"
  "rls_using teams_policies For_Delete db uid t = (uid = Some (owner_id t))"
  by (simp_all add: policy_defs sql_eq_Some_right)

lemma team_members_select_iff:
  "rls_using team_members_policies For_Select db uid m =
     (is_team_member db uid (Some (member_team_id m)) \<or>
      is_team_owner db uid (Some (member_team_id m)))"
  by (simp add: policy_defs)

lemma team_members_insert_iff:
  "rls_check team_members_policies For_Insert db uid m =
     (is_team_owner db uid (Some (member_team_id m)) \<or> uid = Some (member_user_id m))"
  by (simp add: policy_defs sql_eq_Some_right)

lemma team_members_owner_iff:
  "rls_using team_members_policies For_Update db uid m = is_team_owner db uid (Some (member_team_id m))"
  "rls_check team_members_policies For_Update db uid m = is_team_owner db uid (Some (member_team_id m))"
  "rls_using team_members_policies For_Delete db uid m = is_team_owner db uid (Some (member_team_id m))"
  by (simp_all add: policy_defs)

lemma tasks_select_iff:
  "rls_using tasks_policies For_Select db uid k = is_team_member db uid (Some (task_team_id k))"
  by (simp add: policy_defs)

lemma tasks_insert_iff:
  "rls_check tasks_policies For_Insert db uid k =
     (is_team_member db uid (Some (task_team_id k)) \<and> uid = Some (created_by k))"
  by (simp add: policy_defs sql_eq_Some_right)

lemma tasks_update_iff:
  "rls_using tasks_policies For_Update db uid k = is_team_member db uid (Some (task_team_id k))"
  by (simp add: policy_defs)

lemma tasks_update_check_iff:
  "rls_check tasks_policies For_Update db uid k = is_team_member db uid (Some (task_team_id k))"
  by (simp add: policy_defs)

lemma tasks_delete_iff:
  "rls_using tasks_policies For_Delete db uid k = is_team_owner db uid (Some (task_team_id k))"
  by (simp add: policy_defs)

subsection \<open>Tables and statements\<close>

lemma table_fields [simp]:
  "tbl_rows profiles_table = profiles" "tbl_policies profiles_table = profiles_policies"
  "tbl_name profiles_table = ''profiles''"
  "tbl_rows teams_table = teams" "tbl_policies teams_table = teams_policies"
  "tbl_name teams_table = ''teams''"
  "tbl_rows team_members_table = team_members"
  "tbl_policies team_members_table = team_members_policies"
  "tbl_name team_members_table = ''team_members''"
  "tbl_rows tasks_table = tasks" "tbl_policies tasks_table = tasks_policies"
  "tbl_name tasks_table = ''tasks''"
  by (simp_all add: profiles_table_def teams_table_def team_members_table_def tasks_table_def)

lemma table_store [simp]:
  "tbl_store profiles_table ps db = db\<lparr>profiles := ps\<rparr>"
  "tbl_store teams_table ts db = db\<lparr>teams := ts\<rparr>"
  "tbl_store team_members_table ms db = db\<lparr>team_members := ms\<rparr>"
  "tbl_store tasks_table ks db = db\<lparr>tasks := ks\<rparr>"
  by (simp_all add: profiles_table_def teams_table_def team_members_table_def tasks_table_def)

lemma table_triggers [simp]:
  "tbl_before_update profiles_table = update_updated_at_column"
  "tbl_before_update teams_table = update_updated_at_column"
  "tbl_before_update tasks_table = update_updated_at_column"
  "tbl_constraints profiles_table = profiles_constraints"
  "tbl_constraints teams_table = teams_constraints"
  "tbl_constraints team_members_table = team_members_constraints"
  "tbl_constraints tasks_table = tasks_constraints"
  by (simp_all add: profiles_table_def teams_table_def team_members_table_def tasks_table_def)

lemma profiles_constraints_None:
  assumes "profiles_constraints db others p = None"
  shows "\<forall>q\<in>set others. profile_id q \<noteq> profile_id p \<and>
           profile_user_id q \<noteq> profile_user_id p \<and> username q \<noteq> username p"
  using assms by (auto simp: profiles_constraints_def list_ex_iff split: if_splits)

text \<open>A successful \<open>UPDATE\<close> maps the rows of the table one by one.\<close>

lemma update_rows_result:
  "update_rows tbl db uid now w f seen rs = Inr out \<Longrightarrow>
   out = seen @ map (\<lambda>r. if update_target tbl db uid w r
                          then tbl_before_update tbl now (f r) else r) rs"
proof (induction rs arbitrary: seen)
  case Nil
  then show ?case by simp
next
  case (Cons r rs)
  show ?case
  proof (cases "update_target tbl db uid w r")
    case True
    with Cons.prems
    have "update_rows tbl db uid now w f (seen @ [tbl_before_update tbl now (f r)]) rs = Inr out"
      by (simp add: Let_def split: option.splits)
    from Cons.IH [OF this] True show ?thesis by simp
  next
    case False
    with Cons.prems have "update_rows tbl db uid now w f (seen @ [r]) rs = Inr out"
      by simp
    from Cons.IH [OF this] False show ?thesis by simp
  qed
qed

lemma update_rows_no_target:
  "\<forall>r\<in>set rs. \<not> update_target tbl db uid w r \<Longrightarrow>
   update_rows tbl db uid now w f seen rs = Inr (seen @ rs)"
  by (induction rs arbitrary: seen) auto

lemma update_error_rls:
  "\<not> rls_check (tbl_policies tbl) For_Update db uid new \<Longrightarrow>
   update_error tbl db uid others old new = Some (RlsViolation (tbl_name tbl))"
  by (simp add: update_error_def)

text \<open>One updated row whose new version fails the check makes the statement an error.\<close>

lemma update_rows_refused:
  assumes "x \<in> set rs" and "update_target tbl db uid w x"
    and "\<not> rls_check (tbl_policies tbl) For_Update db uid (tbl_before_update tbl now (f x))"
  shows "isl (update_rows tbl db uid now w f seen rs)"
  using assms(1)
proof (induction rs arbitrary: seen)
  case Nil
  then show ?case by simp
next
  case (Cons r rs)
  show ?case
  proof (cases "x = r")
    case True
    with assms(2,3) show ?thesis
      by (simp add: Let_def update_error_rls)
  next
    case False
    with Cons.prems have "x \<in> set rs" by simp
    from Cons.IH [OF this] show ?thesis
      by (simp add: Let_def split: option.splits)
  qed
qed

lemma sql_update_result:
  assumes "sql_update tbl db uid now w f = Inr (db', n)"
  shows "db' = tbl_store tbl
           (map (\<lambda>r. if update_target tbl db uid w r
                      then tbl_before_update tbl now (f r) else r) (tbl_rows tbl db)) db"
proof -
  from assms obtain rows where
    r: "update_rows tbl db uid now w f [] (tbl_rows tbl db) = Inr rows"
    and d: "db' = tbl_store tbl rows db"
    by (auto simp: sql_update_def split: sum.splits)
  from update_rows_result [OF r] d show ?thesis by simp
qed

lemma sql_update_stamps:
  assumes "sql_update tbl db uid now w f = Inr (db', n)"
    and "tbl_before_update tbl = update_updated_at_column"
    and "\<And>rows. tbl_rows tbl (tbl_store tbl rows db) = rows"
  shows "update_stamps tbl db uid now w f db'"
proof -
  from sql_update_result [OF assms(1)] assms(2,3)
  have "tbl_rows tbl db' =
      map (\<lambda>r. if update_target tbl db uid w r then (f r)\<lparr>updated_at := now\<rparr> else r)
        (tbl_rows tbl db)"
    by (simp add: update_updated_at_column_def)
  then show ?thesis
    unfolding update_stamps_def
    by (simp add: list_all2_map2 list_all2_same)
qed

lemma sql_insert_denied:
  "\<not> rls_check (tbl_policies tbl) For_Insert db uid r \<Longrightarrow>
   sql_insert tbl db uid returning r = Inl (RlsViolation (tbl_name tbl))"
  by (simp add: sql_insert_def)

lemma sql_select_denied:
  "\<forall>x\<in>set (tbl_rows tbl db). w x \<longrightarrow> \<not> rls_using (tbl_policies tbl) For_Select db uid x \<Longrightarrow>
   sql_select tbl db uid w = []"
  by (auto simp: sql_select_def filter_empty_conv)

lemma sql_update_denied:
  assumes "\<forall>x\<in>set (tbl_rows tbl db). w x \<longrightarrow> \<not> rls_using (tbl_policies tbl) For_Update db uid x"
    and "tbl_store tbl (tbl_rows tbl db) db = db"
  shows "sql_update tbl db uid now w f = Inr (db, 0)"
proof -
  from assms(1) have none: "\<forall>x\<in>set (tbl_rows tbl db). \<not> update_target tbl db uid w x"
    by (auto simp: update_target_def)
  then have "update_rows tbl db uid now w f [] (tbl_rows tbl db) = Inr (tbl_rows tbl db)"
    using update_rows_no_target [of "tbl_rows tbl db" tbl db uid w now f "[]"] by simp
  moreover from none have "filter (update_target tbl db uid w) (tbl_rows tbl db) = []"
    by (simp add: filter_empty_conv)
  ultimately show ?thesis using assms(2) by (simp add: sql_update_def)
qed

lemma sql_update_refused:
  assumes "x \<in> set (tbl_rows tbl db)" and "update_target tbl db uid w x"
    and "\<not> rls_check (tbl_policies tbl) For_Update db uid (tbl_before_update tbl now (f x))"
  shows "isl (sql_update tbl db uid now w f)"
proof -
  from assms have "isl (update_rows tbl db uid now w f [] (tbl_rows tbl db))"
    by (rule update_rows_refused)
  then show ?thesis
    by (cases "update_rows tbl db uid now w f [] (tbl_rows tbl db)")
      (simp_all add: sql_update_def)
qed

lemma sql_delete_denied:
  assumes "\<forall>x\<in>set (tbl_rows tbl db). w x \<longrightarrow> \<not> rls_using (tbl_policies tbl) For_Delete db uid x"
    and "tbl_store tbl (tbl_rows tbl db) db = db"
  shows "sql_delete tbl db uid w = (db, 0)"
proof -
  from assms(1) have none: "\<forall>x\<in>set (tbl_rows tbl db). \<not> delete_target tbl db uid w x"
    by (auto simp: delete_target_def)
  then have "filter (delete_target tbl db uid w) (tbl_rows tbl db) = []"
    by (simp add: filter_empty_conv)
  moreover from none
  have "filter (\<lambda>r. \<not> delete_target tbl db uid w r) (tbl_rows tbl db) = tbl_rows tbl db"
    by (simp add: filter_id_conv)
  ultimately show ?thesis using assms(2) by (simp add: sql_delete_def)
qed

lemma denied_cleanly_store:
  assumes "tbl_store tbl (tbl_rows tbl db) db = db"
  shows "denied_cleanly tbl db uid now w f r returning"
  unfolding denied_cleanly_def
proof (intro conjI impI ballI)
  assume "\<not> rls_check (tbl_policies tbl) For_Insert db uid r"
  then show "sql_insert tbl db uid returning r = Inl (RlsViolation (tbl_name tbl))"
    by (rule sql_insert_denied)
next
  assume "\<forall>x\<in>set (tbl_rows tbl db). w x \<longrightarrow> \<not> rls_using (tbl_policies tbl) For_Select db uid x"
  then show "sql_select tbl db uid w = []"
    by (rule sql_select_denied)
next
  assume "\<forall>x\<in>set (tbl_rows tbl db). w x \<longrightarrow> \<not> rls_using (tbl_policies tbl) For_Update db uid x"
  with assms show "sql_update tbl db uid now w f = Inr (db, 0)"
    by (simp add: sql_update_denied)
next
  assume "\<forall>x\<in>set (tbl_rows tbl db). w x \<longrightarrow> \<not> rls_using (tbl_policies tbl) For_Delete db uid x"
  with assms show "sql_delete tbl db uid w = (db, 0)"
    by (simp add: sql_delete_denied)
next
  fix x
  assume "update_target tbl db uid w x \<and>
    \<not> rls_check (tbl_policies tbl) For_Update db uid (tbl_before_update tbl now (f x))"
  then show "update_error tbl db uid (tbl_rows tbl db) x (tbl_before_update tbl now (f x)) =
      Some (RlsViolation (tbl_name tbl))"
    by (simp add: update_error_rls)
next
  fix x
  assume "x \<in> set (tbl_rows tbl db)"
    and "update_target tbl db uid w x \<and>
      \<not> rls_check (tbl_policies tbl) For_Update db uid (tbl_before_update tbl now (f x))"
  then show "isl (sql_update tbl db uid now w f)"
    by (simp add: sql_update_refused)
qed

text \<open>Whoever belongs to a team, or owns it, sees all its membership rows.\<close>

lemma member_count_visible:
  assumes "is_team_member db uid (Some tid) \<or> is_team_owner db uid (Some tid)"
  shows "member_count db uid tid =
           length (filter (\<lambda>m. member_team_id m = tid) (team_members db))"
proof -
  have "filter (\<lambda>m. member_team_id m = tid \<and> rls_using team_members_policies For_Select db uid m)
          (team_members db) = filter (\<lambda>m. member_team_id m = tid) (team_members db)"
    using assms by (intro filter_cong) (auto simp: team_members_select_iff)
  then show ?thesis by (simp add: member_count_def sql_select_def)
qed

text \<open>When \<open>handleSubmit\<close> reports success, both rows were inserted.\<close>

lemma handleSubmit_Created:
  assumes "handleSubmit db user name description now1 fresh1 now2 fresh2 = (Created tid, db')"
  shows "\<exists>u t m. user = Some u \<and> team_id t = tid \<and> owner_id t = u \<and>
           member_team_id m = tid \<and> member_user_id m = u \<and> member_role m = ''owner'' \<and>
           db' = db\<lparr>teams := teams db @ [t], team_members := team_members db @ [m]\<rparr>"
proof -
  from assms obtain u where u: "user = Some u"
    by (cases user) (auto simp: handleSubmit_def)
  define t where "t = teams_row now1 fresh1
     \<lparr>ins_team_id = None, ins_team_name = trim name,
      ins_team_description = (if trim description = [] then None else Some (trim description)),
      ins_owner_id = u, ins_team_created_at = None, ins_team_updated_at = None\<rparr>"
  define m where "m = team_members_row now2 fresh2
     \<lparr>ins_member_id = None, ins_member_team_id = team_id t, ins_member_user_id = u,
      ins_member_role = Some ''owner'', ins_invited_by = None, ins_joined_at = None\<rparr>"
  from assms u obtain db1 where
    one: "sql_insert teams_table db user True t = Inr db1"
    and two: "sql_insert team_members_table db1 user False m = Inr db'"
    and tid: "team_id t = tid"
    by (auto simp: handleSubmit_def Let_def t_def m_def split: if_splits sum.splits)
  from one have db1: "db1 = db\<lparr>teams := teams db @ [t]\<rparr>"
    by (auto simp: sql_insert_def split: if_splits option.splits)
  from two have "db' = db1\<lparr>team_members := team_members db1 @ [m]\<rparr>"
    by (auto simp: sql_insert_def split: if_splits option.splits)
  with db1 have db': "db' = db\<lparr>teams := teams db @ [t], team_members := team_members db @ [m]\<rparr>"
    by simp
  have o: "owner_id t = u" by (simp add: t_def teams_row_def)
  have r: "member_team_id m = tid" "member_user_id m = u" "member_role m = ''owner''"
    using tid by (simp_all add: m_def team_members_row_def default_def)
  from u tid o r db' show ?thesis by blast
qed

text \<open>
  In a database whose memberships all refer to existing teams, and with a fresh id for
  the new membership, \<open>handleSubmit\<close> either reports success or leaves the database as
  it was: the second request cannot fail once the first has inserted the team.
\<close>

lemma handleSubmit_both_or_none:
  assumes integrity: "\<forall>m\<in>set (team_members db). team_exists db (member_team_id m)"
    and fresh: "\<forall>m\<in>set (team_members db). member_id m \<noteq> fresh2"
  shows "(\<exists>tid db'. handleSubmit db user name description now1 fresh1 now2 fresh2 = (Created tid, db'))
       \<or> snd (handleSubmit db user name description now1 fresh1 now2 fresh2) = db"
proof (cases user)
  case None
  then show ?thesis by (simp add: handleSubmit_def)
next
  case (Some u)
  define t where "t = teams_row now1 fresh1
     \<lparr>ins_team_id = None, ins_team_name = trim name,
      ins_team_description = (if trim description = [] then None else Some (trim description)),
      ins_owner_id = u, ins_team_created_at = None, ins_team_updated_at = None\<rparr>"
  define m where "m = team_members_row now2 fresh2
     \<lparr>ins_member_id = None, ins_member_team_id = team_id t, ins_member_user_id = u,
      ins_member_role = Some ''owner'', ins_invited_by = None, ins_joined_at = None\<rparr>"
  have t: "team_id t = fresh1" "owner_id t = u"
    by (simp_all add: t_def teams_row_def default_def)
  have m: "member_id m = fresh2" "member_team_id m = fresh1" "member_user_id m = u"
    "member_role m = ''owner''" "invited_by m = None"
    by (simp_all add: m_def team_members_row_def default_def t)
  show ?thesis
  proof (cases "trim name = [] \<or> isl (sql_insert teams_table db user True t)")
    case True
    then show ?thesis
      using Some by (auto simp: handleSubmit_def Let_def t_def [symmetric] split: sum.splits)
  next
    case False
    then obtain db1 where one: "sql_insert teams_table db user True t = Inr db1"
      by (cases "sql_insert teams_table db user True t") auto
    then have ok: "teams_constraints db (teams db) t = None"
      and db1: "db1 = db\<lparr>teams := teams db @ [t]\<rparr>"
      by (auto simp: sql_insert_def split: if_splits option.splits)
    from ok have new: "\<not> team_exists db fresh1" and usr: "user_exists db u"
      by (auto simp: teams_constraints_def team_exists_def t split: if_splits)
    from new integrity have none: "\<forall>x\<in>set (team_members db). member_team_id x \<noteq> fresh1"
      by auto
    have "team_members_constraints db1 (team_members db1) m = None"
      using none fresh usr
      by (auto simp: team_members_constraints_def m db1 list_ex_iff team_exists_def
          user_exists_def t)
    then have "sql_insert team_members_table db1 user False m =
        Inr (db1\<lparr>team_members := team_members db1 @ [m]\<rparr>)"
      using Some by (simp add: sql_insert_def team_members_insert_iff m)
    with one False Some show ?thesis
      by (simp add: handleSubmit_def Let_def t_def [symmetric] m_def [symmetric])
  qed
qed

subsection \<open>The examples, evaluated\<close>

lemma eng_task_update:
  "sql_update tasks_table eng_db (Some 2) 50 task_100 finish_backdated =
     Inr (eng_db\<lparr>tasks := [eng_task\<lparr>status := ''done'', updated_at := 50\<rparr>]\<rparr>, 1)"
  by code_simp

lemma dana_account:
  "create_account users_db 50 30 dana_user =
     Inr (users_db\<lparr>auth_users := users_abc @ [dana_user],
            profiles := [\<lparr>created_at = 50, updated_at = 50, profile_id = 30,
                          profile_user_id = 4, username = ''dana''\<rparr>]\<rparr>)"
  by code_simp

lemma create_eng:
  "handleSubmit users_db (Some 1) ''  Eng '' [] 10 7 11 8 = (Created 7, created_eng_db)"
  by code_simp

text \<open>C, who is neither a member nor the owner of Eng and cannot see the team, inserts
  a membership of their own and is a member afterwards.\<close>

lemma outsider_joins_eng:
  "\<not> is_team_member eng_db (Some 3) (Some 10) \<and> \<not> is_team_owner eng_db (Some 3) (Some 10) \<and>
   sql_select teams_table eng_db (Some 3) (\<lambda>t. True) = [] \<and>
   sql_insert team_members_table eng_db (Some 3) False c_joins =
     Inr (eng_db\<lparr>team_members := team_members eng_db @ [c_joins]\<rparr>) \<and>
   is_team_member (eng_db\<lparr>team_members := team_members eng_db @ [c_joins]\<rparr>) (Some 3) (Some 10)"
  by code_simp

section \<open>The claims\<close>

subsection \<open>C1: the owner and the task policies\<close>

text \<open>
  In \<open>owner_only_db\<close> user A owns Eng and holds no membership row. The task policies
  consult \<open>is_team_member\<close> alone: A passes none of the \<open>SELECT\<close>, \<open>INSERT\<close> and
  \<open>UPDATE\<close> policies for Eng's task, and reads no task.
\<close>

theorem owner_without_membership_row_denied:
  "eng_team \<in> set (teams owner_only_db) \<and> task_team_id eng_task = team_id eng_team \<and>
   is_team_owner owner_only_db (Some (owner_id eng_team)) (Some (team_id eng_team)) \<and>
   \<not> is_team_member owner_only_db (Some (owner_id eng_team)) (Some (team_id eng_team)) \<and>
   \<not> rls_using tasks_policies For_Select owner_only_db (Some (owner_id eng_team)) eng_task \<and>
   \<not> rls_check tasks_policies For_Insert owner_only_db (Some (owner_id eng_team)) eng_task \<and>
   \<not> rls_using tasks_policies For_Update owner_only_db (Some (owner_id eng_team)) eng_task \<and>
   sql_select tasks_table owner_only_db (Some (owner_id eng_team)) task_100 = []"
  by code_simp

text \<open>
  Claim C1, as amended. For every team \<open>t\<close> of the database, every task \<open>k\<close> and every
  membership row \<open>m\<close> of that team: the owner passes the task \<open>SELECT\<close> and \<open>UPDATE\<close>
  policies exactly when a membership row exists for (team, owner), and the task
  \<open>INSERT\<close> policy exactly when it exists and the task's \<open>created_by\<close> is the owner;
  without any membership row the owner passes the task \<open>DELETE\<close> policy, the four team
  policies and the four membership policies.
\<close>

theorem owner_task_access_needs_membership_row:
  assumes "t \<in> set (teams db)" and "task_team_id k = team_id t"
    and "member_team_id m = team_id t"
  shows "(rls_using tasks_policies For_Select db (Some (owner_id t)) k \<longleftrightarrow>
            is_team_member db (Some (owner_id t)) (Some (team_id t))) \<and>
         (rls_check tasks_policies For_Insert db (Some (owner_id t)) k \<longleftrightarrow>
            is_team_member db (Some (owner_id t)) (Some (team_id t)) \<and> created_by k = owner_id t) \<and>
         (rls_using tasks_policies For_Update db (Some (owner_id t)) k \<longleftrightarrow>
            is_team_member db (Some (owner_id t)) (Some (team_id t))) \<and>
         rls_using tasks_policies For_Delete db (Some (owner_id t)) k \<and>
         rls_using teams_policies For_Select db (Some (owner_id t)) t \<and>
         rls_check teams_policies For_Insert db (Some (owner_id t)) t \<and>
         rls_using teams_policies For_Update db (Some (owner_id t)) t \<and>
         rls_using teams_policies For_Delete db (Some (owner_id t)) t \<and>
         rls_using team_members_policies For_Select db (Some (owner_id t)) m \<and>
         rls_check team_members_policies For_Insert db (Some (owner_id t)) m \<and>
         rls_using team_members_policies For_Update db (Some (owner_id t)) m \<and>
         rls_using team_members_policies For_Delete db (Some (owner_id t)) m"
proof -
  from assms(1) have o: "is_team_owner db (Some (owner_id t)) (Some (team_id t))"
    by (auto simp: is_team_owner_iff)
  with assms(2,3) show ?thesis
    by (auto simp: tasks_select_iff tasks_insert_iff tasks_update_iff tasks_delete_iff
        teams_select_iff teams_owner_iff team_members_select_iff team_members_insert_iff
        team_members_owner_iff)
qed

theorem owner_task_access_needs_membership_row_witness:
  "eng_team \<in> set (teams eng_db) \<and> task_team_id eng_task = team_id eng_team \<and>
   member_team_id b_membership = team_id eng_team \<and>
   is_team_member eng_db (Some (owner_id eng_team)) (Some (team_id eng_team)) \<and>
   rls_using tasks_policies For_Select eng_db (Some (owner_id eng_team)) eng_task \<and>
   rls_check tasks_policies For_Insert eng_db (Some (owner_id eng_team)) eng_task \<and>
   rls_using tasks_policies For_Update eng_db (Some (owner_id eng_team)) eng_task \<and>
   rls_using tasks_policies For_Delete eng_db (Some (owner_id eng_team)) eng_task \<and>
   rls_using team_members_policies For_Delete eng_db (Some (owner_id eng_team)) b_membership"
proof -
  have a: "eng_team \<in> set (teams eng_db)" by (simp add: eng_db_def)
  have b: "task_team_id eng_task = team_id eng_team" by (simp add: eng_task_def eng_team_def)
  have c: "member_team_id b_membership = team_id eng_team"
    by (simp add: eng_team_def b_membership_def)
  have d: "is_team_member eng_db (Some (owner_id eng_team)) (Some (team_id eng_team))"
    by (simp add: is_team_member_def eng_db_def eng_team_def)
  have e: "created_by eng_task = owner_id eng_team" by (simp add: eng_task_def eng_team_def)
  from owner_task_access_needs_membership_row [OF a b c] a b c d e show ?thesis by blast
qed

subsection \<open>C2: \<open>is_team_member\<close>\<close>

text \<open>
  Claim C2. For every actor and team, \<open>is_team_member\<close> answers true if and only if
  \<open>team_members\<close> holds a row with that \<open>user_id\<close> and that \<open>team_id\<close>, and the call
  leaves the database as it was.
\<close>

theorem is_team_member_iff_membership_row:
  "call_is_team_member db uid tid =
     ((\<exists>m\<in>set (team_members db).
         uid = Some (member_user_id m) \<and> tid = Some (member_team_id m)), db)"
  by (simp add: call_is_team_member_def is_team_member_iff)

subsection \<open>C3: a membership for somebody else\<close>

text \<open>
  Claim C3. When the actor is not the user of the new membership row and does not own
  the team, the row fails the membership \<open>INSERT\<close> policies and the insertion is
  rejected: it is an error, and no row is created.
\<close>

theorem membership_insert_for_other_user_rejected:
  assumes "uid \<noteq> Some (member_user_id m)"
    and "\<not> is_team_owner db uid (Some (member_team_id m))"
  shows "\<not> rls_check team_members_policies For_Insert db uid m \<and>
         sql_insert team_members_table db uid returning m = Inl (RlsViolation ''team_members'')"
proof -
  from assms have denied: "\<not> rls_check team_members_policies For_Insert db uid m"
    by (simp add: team_members_insert_iff)
  then have "sql_insert team_members_table db uid returning m =
      Inl (RlsViolation (tbl_name team_members_table))"
    by (intro sql_insert_denied) simp
  with denied show ?thesis by simp
qed

theorem membership_insert_for_other_user_rejected_witness:
  "Some 3 \<noteq> Some (member_user_id b_added_by_c) \<and>
   \<not> is_team_owner eng_db (Some 3) (Some (member_team_id b_added_by_c)) \<and>
   sql_insert team_members_table eng_db (Some 3) False b_added_by_c =
     Inl (RlsViolation ''team_members'')"
proof -
  have a: "Some 3 \<noteq> Some (member_user_id b_added_by_c)"
    by (simp add: b_added_by_c_def)
  have b: "\<not> is_team_owner eng_db (Some 3) (Some (member_team_id b_added_by_c))"
    by (simp add: is_team_owner_def eng_db_def eng_team_def b_added_by_c_def)
  from membership_insert_for_other_user_rejected [OF a b, of False] a b show ?thesis
    by blast
qed

subsection \<open>C4: creating a task\<close>

text \<open>
  Claim C4. The task \<open>INSERT\<close> policy lets a new task through if and only if the actor
  is a member of the task's team and the task's \<open>created_by\<close> is the actor: then the
  insertion goes on to the constraints, otherwise it is the error \<open>RlsViolation\<close>; in
  particular an insertion whose \<open>created_by\<close> is another user is rejected.
\<close>

theorem task_insert_needs_member_and_own_creator:
  "(rls_check tasks_policies For_Insert db uid k \<longleftrightarrow>
      is_team_member db uid (Some (task_team_id k)) \<and> uid = Some (created_by k)) \<and>
   sql_insert tasks_table db uid returning k =
     (if is_team_member db uid (Some (task_team_id k)) \<and> uid = Some (created_by k)
      then sql_insert_definer tasks_table db k else Inl (RlsViolation ''tasks'')) \<and>
   (uid \<noteq> Some (created_by k) \<longrightarrow>
      sql_insert tasks_table db uid returning k = Inl (RlsViolation ''tasks''))"
proof (intro conjI impI)
  show "rls_check tasks_policies For_Insert db uid k \<longleftrightarrow>
      is_team_member db uid (Some (task_team_id k)) \<and> uid = Some (created_by k)"
    by (rule tasks_insert_iff)
  show "sql_insert tasks_table db uid returning k =
     (if is_team_member db uid (Some (task_team_id k)) \<and> uid = Some (created_by k)
      then sql_insert_definer tasks_table db k else Inl (RlsViolation ''tasks''))"
    by (auto simp: sql_insert_def sql_insert_definer_def tasks_insert_iff tasks_select_iff)
  assume "uid \<noteq> Some (created_by k)"
  then have "sql_insert tasks_table db uid returning k =
      Inl (RlsViolation (tbl_name tasks_table))"
    by (intro sql_insert_denied) (simp add: tasks_insert_iff)
  then show "sql_insert tasks_table db uid returning k = Inl (RlsViolation ''tasks'')"
    by simp
qed

theorem task_insert_needs_member_and_own_creator_witness:
  "is_team_member eng_db (Some 2) (Some (task_team_id forged_task)) \<and>
   Some 2 \<noteq> Some (created_by forged_task) \<and>
   sql_insert tasks_table eng_db (Some 2) False forged_task = Inl (RlsViolation ''tasks'') \<and>
   rls_check tasks_policies For_Insert eng_db (Some 2) own_task"
proof -
  have m: "is_team_member eng_db (Some 2) (Some (task_team_id forged_task))"
    by (simp add: is_team_member_def eng_db_def forged_task_def eng_task_def)
  have m': "is_team_member eng_db (Some 2) (Some (task_team_id own_task))"
    by (simp add: is_team_member_def eng_db_def own_task_def eng_task_def)
  have f: "Some 2 \<noteq> Some (created_by forged_task)" by (simp add: forged_task_def)
  have o: "Some 2 = Some (created_by own_task)" by (simp add: own_task_def)
  note th = task_insert_needs_member_and_own_creator
  from th [of eng_db "Some 2" forged_task False] f
  have "sql_insert tasks_table eng_db (Some 2) False forged_task = Inl (RlsViolation ''tasks'')"
    by blast
  moreover from th [of eng_db "Some 2" own_task False] m' o
  have "rls_check tasks_policies For_Insert eng_db (Some 2) own_task"
    by blast
  ultimately show ?thesis using m f by blast
qed

subsection \<open>C5: updating and deleting a task\<close>

text \<open>
  Claim C5. The task \<open>UPDATE\<close> policy lets the actor through if and only if the actor is
  a member of the task's team, the task \<open>DELETE\<close> policy if and only if the actor owns
  the task's team; so a member who is not the owner passes the first and not the second,
  and a \<open>DELETE\<close> of the task by such a member removes nothing.
\<close>

theorem task_update_by_member_delete_by_owner:
  "(rls_using tasks_policies For_Update db uid k \<longleftrightarrow> is_team_member db uid (Some (task_team_id k))) \<and>
   (rls_using tasks_policies For_Delete db uid k \<longleftrightarrow> is_team_owner db uid (Some (task_team_id k))) \<and>
   (is_team_member db uid (Some (task_team_id k)) \<and> \<not> is_team_owner db uid (Some (task_team_id k))
      \<longrightarrow> rls_using tasks_policies For_Update db uid k \<and> \<not> rls_using tasks_policies For_Delete db uid k
          \<and> sql_delete tasks_table db uid (\<lambda>x. x = k) = (db, 0))"
proof -
  have "\<not> is_team_owner db uid (Some (task_team_id k)) \<Longrightarrow>
      sql_delete tasks_table db uid (\<lambda>x. x = k) = (db, 0)"
    by (rule sql_delete_denied) (simp_all add: tasks_delete_iff)
  then show ?thesis by (simp add: tasks_update_iff tasks_delete_iff)
qed

theorem task_update_by_member_delete_by_owner_witness:
  "is_team_member eng_db (Some 2) (Some (task_team_id eng_task)) \<and>
   \<not> is_team_owner eng_db (Some 2) (Some (task_team_id eng_task)) \<and>
   rls_using tasks_policies For_Update eng_db (Some 2) eng_task \<and>
   \<not> rls_using tasks_policies For_Delete eng_db (Some 2) eng_task \<and>
   sql_delete tasks_table eng_db (Some 2) (\<lambda>x. x = eng_task) = (eng_db, 0)"
proof -
  have m: "is_team_member eng_db (Some 2) (Some (task_team_id eng_task))"
    by (simp add: is_team_member_def eng_db_def eng_task_def)
  have o: "\<not> is_team_owner eng_db (Some 2) (Some (task_team_id eng_task))"
    by (simp add: is_team_owner_def eng_db_def eng_task_def eng_team_def)
  from task_update_by_member_delete_by_owner [of eng_db "Some 2" eng_task] m o
  show ?thesis by blast
qed

subsection \<open>C6: \<open>updated_at\<close>\<close>

text \<open>
  Only \<open>BEFORE UPDATE\<close> triggers are declared: an \<open>INSERT\<close> keeps an \<open>updated_at\<close>
  that its caller supplies. User A inserts a team at time 10 with \<open>updated_at\<close> 100 and
  renames it at time 20; the stored \<open>updated_at\<close> goes from 100 back to 20.
\<close>

theorem updated_at_can_go_back:
  "sql_insert teams_table users_db (Some 1) True (teams_row 10 7 future_team) = Inr future_team_db \<and>
   sql_update teams_table future_team_db (Some 1) 20 team_7 rename_to_core
     = Inr (renamed_team_db, 1) \<and>
   map updated_at (teams future_team_db) = [100] \<and>
   map updated_at (teams renamed_team_db) = [20] \<and>
   \<not> updated_at (hd (teams future_team_db)) \<le> updated_at (hd (teams renamed_team_db))"
  by code_simp

text \<open>
  Claim C6, as amended. After every successful \<open>UPDATE\<close> on profiles, teams or tasks,
  each row it updated is what the statement set with \<open>updated_at\<close> replaced by the
  current time, whatever \<open>updated_at\<close> the caller supplied, and every other row is as
  it was; the new \<open>updated_at\<close> is greater than or equal to the previous one whenever
  the previous one was not later than the current time.
\<close>

theorem update_sets_updated_at_to_now:
  "(sql_update profiles_table db uid now w1 f1 = Inr (db1, n1) \<longrightarrow>
      update_stamps profiles_table db uid now w1 f1 db1) \<and>
   (sql_update teams_table db uid now w2 f2 = Inr (db2, n2) \<longrightarrow>
      update_stamps teams_table db uid now w2 f2 db2) \<and>
   (sql_update tasks_table db uid now w3 f3 = Inr (db3, n3) \<longrightarrow>
      update_stamps tasks_table db uid now w3 f3 db3)"
proof (intro conjI impI)
  assume "sql_update profiles_table db uid now w1 f1 = Inr (db1, n1)"
  then show "update_stamps profiles_table db uid now w1 f1 db1"
    by (rule sql_update_stamps) simp_all
next
  assume "sql_update teams_table db uid now w2 f2 = Inr (db2, n2)"
  then show "update_stamps teams_table db uid now w2 f2 db2"
    by (rule sql_update_stamps) simp_all
next
  assume "sql_update tasks_table db uid now w3 f3 = Inr (db3, n3)"
  then show "update_stamps tasks_table db uid now w3 f3 db3"
    by (rule sql_update_stamps) simp_all
qed

theorem update_sets_updated_at_to_now_witness:
  "sql_update tasks_table eng_db (Some 2) 50 task_100 finish_backdated =
     Inr (eng_db\<lparr>tasks := [eng_task\<lparr>status := ''done'', updated_at := 50\<rparr>]\<rparr>, 1) \<and>
   update_stamps tasks_table eng_db (Some 2) 50 task_100 finish_backdated
     (eng_db\<lparr>tasks := [eng_task\<lparr>status := ''done'', updated_at := 50\<rparr>]\<rparr>) \<and>
   updated_at (finish_backdated eng_task) = 5 \<and> updated_at eng_task = 30"
  using update_sets_updated_at_to_now [of eng_db "Some 2" 50 _ _ _ _ _ _ _ _ task_100
      finish_backdated "eng_db\<lparr>tasks := [eng_task\<lparr>status := ''done'', updated_at := 50\<rparr>]\<rparr>" 1]
    eng_task_update
  by (simp add: finish_backdated_def eng_task_def)

subsection \<open>C7: the profile of a new account\<close>

text \<open>
  \<open>COALESCE\<close> passes over \<open>NULL\<close> only: an account whose metadata holds the empty
  string under \<open>username\<close> is created, and its profile has the empty handle.
\<close>

theorem blank_username_gives_empty_handle:
  "create_account users_db 50 30 blank_user =
     Inr (users_db\<lparr>auth_users := users_abc @ [blank_user],
            profiles := [\<lparr>created_at = 50, updated_at = 50, profile_id = 30,
                          profile_user_id = 4, username = []\<rparr>]\<rparr>) \<and>
   jsonb_text (raw_user_meta_data blank_user) ''username'' = Some []"
  by code_simp

text \<open>
  Claim C7, as amended. For every account that is created, the trigger inserts exactly
  one profile row for it, whose handle no other profile has, and which is the
  \<open>username\<close> of the metadata when that is present (empty when that is empty) and
  otherwise the text of the email address before \<open>@\<close>.
\<close>

theorem create_account_inserts_one_profile:
  assumes "create_account db now fresh u = Inr db'"
  shows "\<exists>h. coalesce [jsonb_text (raw_user_meta_data u) ''username'',
                       split_part_1 (email u) CHR ''@''] = Some h \<and>
           (case jsonb_text (raw_user_meta_data u) ''username'' of
              Some n \<Rightarrow> h = n
            | None \<Rightarrow> map_option (takeWhile (\<lambda>c. c \<noteq> CHR ''@'')) (email u) = Some h) \<and>
           db' = db\<lparr>auth_users := auth_users db @ [u],
                    profiles := profiles db @
                      [\<lparr>created_at = now, updated_at = now, profile_id = fresh,
                        profile_user_id = auth_user_id u, username = h\<rparr>]\<rparr> \<and>
           (\<forall>q\<in>set (profiles db). username q \<noteq> h \<and> profile_user_id q \<noteq> auth_user_id u) \<and>
           length (filter (\<lambda>p. profile_user_id p = auth_user_id u) (profiles db')) = 1"
proof -
  let ?db1 = "db\<lparr>auth_users := auth_users db @ [u]\<rparr>"
  from assms have run: "handle_new_user ?db1 now fresh u = Inr db'"
    by (simp add: create_account_def split: if_splits)
  then obtain h where
    h: "coalesce [jsonb_text (raw_user_meta_data u) ''username'',
                  split_part_1 (email u) CHR ''@''] = Some h"
    by (auto simp: handle_new_user_def split: option.splits)
  let ?p = "\<lparr>created_at = now, updated_at = now, profile_id = fresh,
             profile_user_id = auth_user_id u, username = h\<rparr>"
  from run h have ins: "sql_insert_definer profiles_table ?db1 ?p = Inr db'"
    by (simp add: handle_new_user_def profiles_row_def default_def)
  then have ok: "profiles_constraints ?db1 (profiles db) ?p = None"
    and db': "db' = ?db1\<lparr>profiles := profiles db @ [?p]\<rparr>"
    by (auto simp: sql_insert_definer_def split: option.splits)
  from profiles_constraints_None [OF ok]
  have fresh: "\<forall>q\<in>set (profiles db). username q \<noteq> h \<and> profile_user_id q \<noteq> auth_user_id u"
    by simp
  then have "filter (\<lambda>p. profile_user_id p = auth_user_id u) (profiles db) = []"
    by (simp add: filter_empty_conv)
  with db' have one: "length (filter (\<lambda>p. profile_user_id p = auth_user_id u) (profiles db')) = 1"
    by simp
  from h have src: "case jsonb_text (raw_user_meta_data u) ''username'' of
              Some n \<Rightarrow> h = n
            | None \<Rightarrow> map_option (takeWhile (\<lambda>c. c \<noteq> CHR ''@'')) (email u) = Some h"
    by (simp add: split_part_1_def coalesce_Cons split: option.splits)
  from h src db' fresh one show ?thesis by blast
qed

theorem create_account_inserts_one_profile_witness:
  "create_account users_db 50 30 dana_user =
     Inr (users_db\<lparr>auth_users := users_abc @ [dana_user],
            profiles := [\<lparr>created_at = 50, updated_at = 50, profile_id = 30,
                          profile_user_id = 4, username = ''dana''\<rparr>]\<rparr>) \<and>
   length (filter (\<lambda>p. profile_user_id p = auth_user_id dana_user)
     (profiles (users_db\<lparr>auth_users := users_abc @ [dana_user],
            profiles := [\<lparr>created_at = 50, updated_at = 50, profile_id = 30,
                          profile_user_id = 4, username = ''dana''\<rparr>]\<rparr>))) = 1"
  using create_account_inserts_one_profile [OF dana_account] dana_account by blast

subsection \<open>C8: the member count of the dashboard\<close>

text \<open>
  Claim C8. For every team that the actor can see, the member count that \<open>fetchTeams\<close>
  computes is the number of membership rows recorded for the team, so the owner is
  counted only through a membership row; for a team that \<open>handleSubmit\<close> of the
  CreateTeam page has created, one of the rows counted is the owner's, with role
  \<open>owner\<close>.
\<close>

theorem member_count_counts_membership_rows:
  "(t \<in> set (teams db) \<and> rls_using teams_policies For_Select db uid t \<longrightarrow>
      member_count db uid (team_id t) =
        length (filter (\<lambda>m. member_team_id m = team_id t) (team_members db))) \<and>
   (handleSubmit db user name description now1 fresh1 now2 fresh2 = (Created tid, db') \<longrightarrow>
      (\<exists>m\<in>set (filter (\<lambda>m. member_team_id m = tid) (team_members db')).
          user = Some (member_user_id m) \<and> member_role m = ''owner'') \<and>
      member_count db' user tid =
        length (filter (\<lambda>m. member_team_id m = tid) (team_members db')) \<and>
      0 < member_count db' user tid)"
proof (intro conjI impI)
  assume "t \<in> set (teams db) \<and> rls_using teams_policies For_Select db uid t"
  then have "is_team_member db uid (Some (team_id t)) \<or> is_team_owner db uid (Some (team_id t))"
    by (auto simp: teams_select_iff is_team_owner_iff)
  then show "member_count db uid (team_id t) =
        length (filter (\<lambda>m. member_team_id m = team_id t) (team_members db))"
    by (rule member_count_visible)
next
  assume created: "handleSubmit db user name description now1 fresh1 now2 fresh2 = (Created tid, db')"
  from handleSubmit_Created [OF this] obtain u t m where
    u: "user = Some u" and m: "member_team_id m = tid" "member_user_id m = u"
      "member_role m = ''owner''"
    and db': "db' = db\<lparr>teams := teams db @ [t], team_members := team_members db @ [m]\<rparr>"
    by blast
  from m db' have row: "m \<in> set (filter (\<lambda>m. member_team_id m = tid) (team_members db'))"
    by simp
  with u m show "\<exists>m\<in>set (filter (\<lambda>m. member_team_id m = tid) (team_members db')).
          user = Some (member_user_id m) \<and> member_role m = ''owner''"
    by blast
  from u m db' have "is_team_member db' user (Some tid)"
    by (auto simp: is_team_member_iff)
  then show count: "member_count db' user tid =
        length (filter (\<lambda>m. member_team_id m = tid) (team_members db'))"
    by (simp add: member_count_visible)
  from row have "filter (\<lambda>m. member_team_id m = tid) (team_members db') \<noteq> []"
    by (metis empty_iff list.set(1))
  with count show "0 < member_count db' user tid" by simp
qed

theorem member_count_counts_membership_rows_witness:
  "eng_team \<in> set (teams eng_db) \<and> rls_using teams_policies For_Select eng_db (Some 2) eng_team \<and>
   member_count eng_db (Some 2) (team_id eng_team) = 2 \<and>
   handleSubmit users_db (Some 1) ''  Eng '' [] 10 7 11 8 = (Created 7, created_eng_db) \<and>
   member_count created_eng_db (Some 1) 7 = 1 \<and>
   member_count owner_only_db (Some 1) 10 = 0"
proof -
  have a: "eng_team \<in> set (teams eng_db) \<and> rls_using teams_policies For_Select eng_db (Some 2) eng_team"
    by (simp add: teams_select_iff is_team_member_def eng_db_def eng_team_def)
  note th = member_count_counts_membership_rows
  from th [of eng_team eng_db "Some 2"] a
  have "member_count eng_db (Some 2) (team_id eng_team) =
      length (filter (\<lambda>m. member_team_id m = team_id eng_team) (team_members eng_db))"
    by blast
  then have b: "member_count eng_db (Some 2) (team_id eng_team) = 2"
    by (simp add: eng_db_def eng_team_def)
  from th [of _ users_db _ "Some 1" "''  Eng ''" "[]" 10 7 11 8 7 created_eng_db] create_eng
  have "member_count created_eng_db (Some 1) 7 =
      length (filter (\<lambda>m. member_team_id m = 7) (team_members created_eng_db))"
    by blast
  then have c: "member_count created_eng_db (Some 1) 7 = 1"
    by (simp add: created_eng_db_def)
  have d: "member_count owner_only_db (Some 1) 10 = 0"
    by code_simp
  from a b c d create_eng show ?thesis by blast
qed

subsection \<open>C9: a denied operation\<close>

text \<open>
  Claim C9. For each of the four tables, every database and every actor: a statement
  whose rows the policy of its command denies leaves the database as it was, and its
  caller sees only that it was denied, as the error \<open>RlsViolation\<close> for an \<open>INSERT\<close>
  or for the new row of an \<open>UPDATE\<close>, as no row for a \<open>SELECT\<close>, as zero rows changed
  for an \<open>UPDATE\<close> or a \<open>DELETE\<close>; in particular somebody who is not a member of a
  team reads an empty list of its tasks, not an error.
\<close>

theorem denied_operation_changes_nothing:
  "denied_cleanly profiles_table db uid now w1 f1 r1 returning \<and>
   denied_cleanly teams_table db uid now w2 f2 r2 returning \<and>
   denied_cleanly team_members_table db uid now w3 f3 r3 returning \<and>
   denied_cleanly tasks_table db uid now w4 f4 r4 returning \<and>
   (\<not> is_team_member db uid (Some t) \<longrightarrow>
      sql_select tasks_table db uid (\<lambda>k. task_team_id k = t) = [])"
proof -
  have "\<not> is_team_member db uid (Some t) \<Longrightarrow>
      sql_select tasks_table db uid (\<lambda>k. task_team_id k = t) = []"
    by (rule sql_select_denied) (simp add: tasks_select_iff)
  moreover have "denied_cleanly profiles_table db uid now w1 f1 r1 returning"
    by (rule denied_cleanly_store) simp
  moreover have "denied_cleanly teams_table db uid now w2 f2 r2 returning"
    by (rule denied_cleanly_store) simp
  moreover have "denied_cleanly team_members_table db uid now w3 f3 r3 returning"
    by (rule denied_cleanly_store) simp
  moreover have "denied_cleanly tasks_table db uid now w4 f4 r4 returning"
    by (rule denied_cleanly_store) simp
  ultimately show ?thesis by blast
qed

theorem denied_operation_changes_nothing_witness:
  "\<not> is_team_member eng_db (Some 3) (Some 10) \<and>
   sql_select tasks_table eng_db (Some 3) (\<lambda>k. task_team_id k = 10) = [] \<and>
   \<not> rls_check tasks_policies For_Insert eng_db (Some 3) forged_task \<and>
   sql_insert tasks_table eng_db (Some 3) False forged_task = Inl (RlsViolation ''tasks'') \<and>
   sql_update tasks_table eng_db (Some 3) 50 task_100 finish_backdated = Inr (eng_db, 0) \<and>
   sql_delete tasks_table eng_db (Some 3) task_100 = (eng_db, 0) \<and>
   update_target tasks_table eng_db (Some 2) task_100 eng_task \<and>
   \<not> rls_check tasks_policies For_Update eng_db (Some 2)
       (update_updated_at_column 50 (move_to_11 eng_task)) \<and>
   isl (sql_update tasks_table eng_db (Some 2) 50 task_100 move_to_11)"
proof -
  have nm: "\<not> is_team_member eng_db (Some 3) (Some 10)"
    by (simp add: is_team_member_def eng_db_def)
  have rows: "tasks eng_db = [eng_task]" and team: "task_team_id eng_task = 10"
    by (simp_all add: eng_db_def eng_task_def)
  have ins: "\<not> rls_check tasks_policies For_Insert eng_db (Some 3) forged_task"
    using nm by (simp add: tasks_insert_iff forged_task_def team)
  have upd: "\<forall>x\<in>set (tasks eng_db). task_100 x \<longrightarrow>
      \<not> rls_using tasks_policies For_Update eng_db (Some 3) x"
    using nm by (simp add: rows team tasks_update_iff)
  have del: "\<forall>x\<in>set (tasks eng_db). task_100 x \<longrightarrow>
      \<not> rls_using tasks_policies For_Delete eng_db (Some 3) x"
    by (simp add: rows team tasks_delete_iff is_team_owner_def eng_db_def eng_team_def)
  have tgt: "update_target tasks_table eng_db (Some 2) task_100 eng_task"
    by (simp add: update_target_def tasks_select_iff tasks_update_iff team task_100_def
        is_team_member_def eng_db_def) (simp add: eng_task_def)
  have chk: "\<not> rls_check tasks_policies For_Update eng_db (Some 2)
      (update_updated_at_column 50 (move_to_11 eng_task))"
    by (simp add: tasks_update_check_iff update_updated_at_column_def move_to_11_def
        is_team_member_def eng_db_def)
  note th = denied_operation_changes_nothing
  from th [of eng_db "Some 3" 50 _ _ _ False _ _ _ _ _ _ task_100 finish_backdated forged_task 10]
  have three: "denied_cleanly tasks_table eng_db (Some 3) 50 task_100 finish_backdated forged_task False"
    and sel: "\<not> is_team_member eng_db (Some 3) (Some 10) \<longrightarrow>
      sql_select tasks_table eng_db (Some 3) (\<lambda>k. task_team_id k = 10) = []"
    by blast+
  from th [of eng_db "Some 2" 50 _ _ _ False _ _ _ _ _ _ task_100 move_to_11 forged_task 10]
  have two: "denied_cleanly tasks_table eng_db (Some 2) 50 task_100 move_to_11 forged_task False"
    by blast
  from three ins upd del
  have a: "sql_insert tasks_table eng_db (Some 3) False forged_task = Inl (RlsViolation ''tasks'')"
    and b: "sql_update tasks_table eng_db (Some 3) 50 task_100 finish_backdated = Inr (eng_db, 0)"
    and c: "sql_delete tasks_table eng_db (Some 3) task_100 = (eng_db, 0)"
    by (simp_all add: denied_cleanly_def)
  from two tgt chk rows
  have d: "isl (sql_update tasks_table eng_db (Some 2) 50 task_100 move_to_11)"
    by (simp add: denied_cleanly_def)
  from nm sel ins a b c tgt chk d show ?thesis by blast
qed

subsection \<open>C10: joining a team\<close>

text \<open>
  Claim C10. For every signed-in user and every database, a membership row whose
  \<open>user_id\<close> is the actor passes the membership \<open>INSERT\<close> policies, whatever the team
  and whether or not the actor was invited, belongs to the team or can see it: the
  insertion goes through exactly as it would without row-level security, decided by the
  constraints alone.
\<close>

theorem self_join_passes_insert_policy:
  "rls_check team_members_policies For_Insert db (Some (member_user_id m)) m \<and>
   sql_insert team_members_table db (Some (member_user_id m)) False m =
     sql_insert_definer team_members_table db m"
  by (simp add: team_members_insert_iff sql_insert_def sql_insert_definer_def)

end
